theory Spec2Isabelle
  imports Complex_Main
begin

section \<open>The IP geolocation web map (map.js)\<close>

text \<open>
  A shallow embedding of \<^verbatim>\<open>map.js\<close>, the script of a page that loads a GeoJSON file of IP
  locations and shows it on a MapLibre GL JS map.

  Conventions of the embedding.
  \<^item> The two globals of the script (\<^verbatim>\<open>map\<close>, \<^verbatim>\<open>ipLocationData\<close>), the status element
    \<^verbatim>\<open>#ip-count\<close> and the map object are one record, passed through every function.
  \<^item> A JavaScript string is a \<open>string\<close>; the characters outside ASCII that the script
    writes (its pictographs) stand as their UTF-8 bytes.
  \<^item> A JavaScript number is the real number it denotes (no rounding, no NaN, no infinity).
  \<^item> \<^verbatim>\<open>console.log\<close> and \<^verbatim>\<open>console.error\<close> write to a channel the script never reads;
    they are left out.
  \<^item> An exception is a value: a function of the library that can throw returns a sum, and
    every \<^verbatim>\<open>try\<close>/\<^verbatim>\<open>catch\<close> of the script is a case distinction on it.
\<close>

subsection \<open>JavaScript values\<close>

datatype json =
    JNull
  | JBool bool
  | JNum real
  | JStr string
  | JArr "json list"
  | JObj "(string \<times> json) list"

text \<open>Truthiness of a value that \<^verbatim>\<open>JSON.parse\<close> returned.\<close>

fun truthy :: "json \<Rightarrow> bool" where
  "truthy JNull = False"
| "truthy (JBool b) = b"
| "truthy (JNum x) = (x \<noteq> 0)"
| "truthy (JStr s) = (s \<noteq> [])"
| "truthy (JArr xs) = True"
| "truthy (JObj kvs) = True"

text \<open>
  The two property reads of the loader, \<^verbatim>\<open>v.features\<close> and \<^verbatim>\<open>v.length\<close>, on a value
  that is not null; \<open>None\<close> is \<^verbatim>\<open>undefined\<close>. An object holds each key once, as
  \<^verbatim>\<open>JSON.parse\<close> builds it.
\<close>

fun get_features :: "json \<Rightarrow> json option" where
  "get_features (JObj kvs) = map_of kvs ''features''"
| "get_features v = None"

fun get_length :: "json \<Rightarrow> json option" where
  "get_length (JArr xs) = Some (JNum (real (length xs)))"
| "get_length (JStr s) = Some (JNum (real (length s)))"
| "get_length (JObj kvs) = map_of kvs ''length''"
| "get_length v = None"

text \<open>\<^verbatim>\<open>!v\<close> for a value that may be \<^verbatim>\<open>undefined\<close>.\<close>

fun falsy :: "json option \<Rightarrow> bool" where
  "falsy None = True"
| "falsy (Some v) = (\<not> truthy v)"

subsection \<open>Strings\<close>

text \<open>The decimal digits of a natural number: what a template literal writes for it.\<close>

fun show_nat :: "nat \<Rightarrow> string" where
  "show_nat n =
     (if n < 10 then [''0123456789'' ! n]
      else show_nat (n div 10) @ [''0123456789'' ! (n mod 10)])"

declare show_nat.simps [simp del]

text \<open>\<^verbatim>\<open>s.includes(pat)\<close>: \<open>pat\<close> occurs in \<open>s\<close> as a contiguous run.\<close>

fun js_includes :: "string \<Rightarrow> string \<Rightarrow> bool" where
  "js_includes [] pat = (pat = [])"
| "js_includes (c # cs) pat = (take (length pat) (c # cs) = pat \<or> js_includes cs pat)"

definition chart_emoji :: string where
  "chart_emoji = [CHR 0xF0, CHR 0x9F, CHR 0x93, CHR 0x8A]"

definition cross_emoji :: string where
  "cross_emoji = [CHR 0xE2, CHR 0x9D, CHR 0x8C]"

subsection \<open>The state of the page\<close>

record element =
  textContent :: string
  color :: string

record camera =
  center :: "real \<times> real"
  zoom :: real
  pitch :: real
  bearing :: real

datatype style = StyleUrl string | StyleDoc json

record source_spec =
  source_type :: string
  data :: json
  cluster :: bool
  clusterMaxZoom :: nat
  clusterRadius :: nat

record layer =
  layer_id :: string
  layer_type :: string
  source :: string
  filter_expr :: json
  layout :: "(string \<times> json) list"
  paint :: "(string \<times> json) list"

datatype event = Load | Error | Styledata | Click | Mouseenter | Mouseleave

text \<open>
  The callbacks the script registers, one constructor for each function expression;
  \<open>RestoreView\<close> is the closure of \<^verbatim>\<open>changeMapStyle\<close> with the four values it captured.
\<close>

datatype handler =
    OnMapLoad
  | OnMapError
  | OnStyledata
  | ClusterClick
  | PointClick
  | CursorPointer
  | CursorDefault
  | RestoreView "real \<times> real" real real real

record popup =
  popup_lngLat :: "real \<times> real"
  popup_html :: string
  closeButton :: bool
  closeOnClick :: bool
  maxWidth :: string

text \<open>The methods of the map the script calls, as the trace of a map records them.\<close>

datatype call =
    GetCenter
  | GetZoom
  | GetPitch
  | GetBearing
  | SetCenter "real \<times> real"
  | SetZoom real
  | SetPitch real
  | SetBearing real
  | SetStyle style
  | AddSource string
  | AddLayer string
  | On event "string option" handler
  | Once event handler
  | EaseTo camera nat
  | ZoomIn
  | ZoomOut
  | AddPopup

record map_obj =
  style :: style
  sources :: "(string \<times> source_spec) list"
  layers :: "layer list"
  cam :: camera
  listeners :: "(event \<times> string option \<times> handler) list"
  once_listeners :: "(event \<times> handler) list"
  popups :: "popup list"
  calls :: "call list"

text \<open>
  \<open>map_handle\<close> is the global \<^verbatim>\<open>map\<close> (\<open>None\<close> until \<^verbatim>\<open>initializeMap\<close> has assigned it),
  \<open>ip_count\<close> is \<^verbatim>\<open>document.getElementById('ip-count')\<close> (\<open>None\<close> when the page has no
  such element).
\<close>

record page =
  map_handle :: "map_obj option"
  ipLocationData :: json
  ip_count :: "element option"

subsection \<open>Status text\<close>

text \<open>
  The argument of \<^verbatim>\<open>updateIPCount\<close>, as its documentation types it
  (\<^verbatim>\<open>@param {number|string} count\<close>); the number is a count.
\<close>

datatype count_arg = Count nat | Message string

fun updateIPCount :: "count_arg \<Rightarrow> page \<Rightarrow> page" where
  "updateIPCount (Count n) s =
     (case ip_count s of
        None \<Rightarrow> s
      | Some el \<Rightarrow>
          s\<lparr>ip_count := Some (el\<lparr>
            textContent := chart_emoji @ '' '' @ show_nat n @ '' unique IP locations loaded'',
            color := ''#27ae60''\<rparr>)\<rparr>)"
| "updateIPCount (Message m) s =
     (case ip_count s of
        None \<Rightarrow> s
      | Some el \<Rightarrow> s\<lparr>ip_count := Some (el\<lparr>textContent := m, color := ''#3498db''\<rparr>)\<rparr>)"

definition showErrorMessage :: "string \<Rightarrow> page \<Rightarrow> page" where
  "showErrorMessage message s =
     (case ip_count s of
        None \<Rightarrow> s
      | Some el \<Rightarrow>
          s\<lparr>ip_count := Some (el\<lparr>
            textContent := cross_emoji @ '' Error: '' @ message,
            color := ''#e74c3c''\<rparr>)\<rparr>)"

subsection \<open>The map library\<close>

text \<open>
  The methods of the map object that the script calls. Each one appends itself to the
  trace \<open>calls\<close>. A method that can throw returns \<open>Inl\<close> of the map as the throw leaves
  it, and \<open>Inr\<close> of the map otherwise.
\<close>

definition traced :: "call \<Rightarrow> map_obj \<Rightarrow> map_obj" where
  "traced c m = m\<lparr>calls := calls m @ [c]\<rparr>"

text \<open>
  Modelled from the spec: the library's source and layer registration is not part of the
  script; the specification names a duplicate source or layer identifier as a failure
  that \<^verbatim>\<open>addGeoJSONToMap\<close> catches. A registration under a fresh identifier succeeds.
\<close>

definition addSource :: "string \<Rightarrow> source_spec \<Rightarrow> map_obj \<Rightarrow> map_obj + map_obj" where
  "addSource i sp m =
     (if i \<in> set (map fst (sources m)) then Inl (traced (AddSource i) m)
      else Inr (traced (AddSource i) m\<lparr>sources := sources m @ [(i, sp)]\<rparr>))"

definition addLayer :: "layer \<Rightarrow> map_obj \<Rightarrow> map_obj + map_obj" where
  "addLayer l m =
     (if layer_id l \<in> set (map layer_id (layers m)) then Inl (traced (AddLayer (layer_id l)) m)
      else Inr (traced (AddLayer (layer_id l)) m\<lparr>layers := layers m @ [l]\<rparr>))"

definition on_layer :: "event \<Rightarrow> string \<Rightarrow> handler \<Rightarrow> map_obj \<Rightarrow> map_obj" where
  "on_layer e l h m = traced (On e (Some l) h) m\<lparr>listeners := listeners m @ [(e, Some l, h)]\<rparr>"

definition once :: "event \<Rightarrow> handler \<Rightarrow> map_obj \<Rightarrow> map_obj" where
  "once e h m = traced (Once e h) m\<lparr>once_listeners := once_listeners m @ [(e, h)]\<rparr>"

text \<open>
  Modelled from the spec: a style swap drops the sources and layers of the old style, and
  with them the handlers bound to a layer (the specification: handlers are layer-scoped
  and must be re-attached whenever layers are recreated). Handlers bound to the map stay.
\<close>

definition setStyle :: "style \<Rightarrow> map_obj \<Rightarrow> map_obj" where
  "setStyle st m =
     traced (SetStyle st) m\<lparr>
       style := st, sources := [], layers := [],
       listeners := filter (\<lambda>(e, l, h). l = None) (listeners m)\<rparr>"

definition getCenter :: "map_obj \<Rightarrow> (real \<times> real) \<times> map_obj" where
  "getCenter m = (center (cam m), traced GetCenter m)"

definition getZoom :: "map_obj \<Rightarrow> real \<times> map_obj" where
  "getZoom m = (zoom (cam m), traced GetZoom m)"

definition getPitch :: "map_obj \<Rightarrow> real \<times> map_obj" where
  "getPitch m = (pitch (cam m), traced GetPitch m)"

definition getBearing :: "map_obj \<Rightarrow> real \<times> map_obj" where
  "getBearing m = (bearing (cam m), traced GetBearing m)"

definition setCenter :: "real \<times> real \<Rightarrow> map_obj \<Rightarrow> map_obj" where
  "setCenter c m = traced (SetCenter c) m\<lparr>cam := (cam m)\<lparr>center := c\<rparr>\<rparr>"

definition setZoom :: "real \<Rightarrow> map_obj \<Rightarrow> map_obj" where
  "setZoom z m = traced (SetZoom z) m\<lparr>cam := (cam m)\<lparr>zoom := z\<rparr>\<rparr>"

definition setPitch :: "real \<Rightarrow> map_obj \<Rightarrow> map_obj" where
  "setPitch p m = traced (SetPitch p) m\<lparr>cam := (cam m)\<lparr>pitch := p\<rparr>\<rparr>"

definition setBearing :: "real \<Rightarrow> map_obj \<Rightarrow> map_obj" where
  "setBearing b m = traced (SetBearing b) m\<lparr>cam := (cam m)\<lparr>bearing := b\<rparr>\<rparr>"

text \<open>
  The animated moves, by the camera they end at (for the zoom steps: inside the zoom
  range of the map).
\<close>

definition easeTo :: "camera \<Rightarrow> nat \<Rightarrow> map_obj \<Rightarrow> map_obj" where
  "easeTo target duration m = traced (EaseTo target duration) m\<lparr>cam := target\<rparr>"

definition zoomIn :: "map_obj \<Rightarrow> map_obj" where
  "zoomIn m = traced ZoomIn m\<lparr>cam := (cam m)\<lparr>zoom := zoom (cam m) + 1\<rparr>\<rparr>"

definition zoomOut :: "map_obj \<Rightarrow> map_obj" where
  "zoomOut m = traced ZoomOut m\<lparr>cam := (cam m)\<lparr>zoom := zoom (cam m) - 1\<rparr>\<rparr>"

text \<open>
  Modelled from the spec: the \<^verbatim>\<open>step\<close> operator of the library's style expressions, on
  the form the script writes (\<^verbatim>\<open>['step', input, out0, stop1, out1, ...]\<close> with literal
  outputs and ascending stops). The specification: the thresholds are inclusive lower
  bounds. \<open>eval_expr\<close> evaluates \<^verbatim>\<open>get\<close> and \<^verbatim>\<open>step\<close> on the properties of a feature;
  \<open>None\<close> is an expression it does not read.
\<close>

fun step_lookup :: "real \<Rightarrow> json \<Rightarrow> json list \<Rightarrow> json option" where
  "step_lookup x out [] = Some out"
| "step_lookup x out (JNum stop # out' # rest) =
     (if x < stop then Some out else step_lookup x out' rest)"
| "step_lookup x out stops = None"

fun eval_expr :: "(string \<times> json) list \<Rightarrow> json \<Rightarrow> json option" where
  "eval_expr props (JArr [JStr opr, JStr k]) =
     (if opr = ''get'' then map_of props k else None)"
| "eval_expr props (JArr (JStr opr # input # out0 # stops)) =
     (if opr = ''step'' then
        (case eval_expr props input of
           Some (JNum x) \<Rightarrow> step_lookup x out0 stops
         | _ \<Rightarrow> None)
      else None)"
| "eval_expr props (JArr xs) = None"
| "eval_expr props v = Some v"

definition paint_value :: "layer \<Rightarrow> string \<Rightarrow> (string \<times> json) list \<Rightarrow> json option" where
  "paint_value l k props =
     (case map_of (paint l) k of None \<Rightarrow> None | Some e \<Rightarrow> eval_expr props e)"

subsection \<open>Rendering the data\<close>

definition ip_source :: "json \<Rightarrow> source_spec" where
  "ip_source d =
     \<lparr>source_type = ''geojson'', data = d, cluster = True,
      clusterMaxZoom = 14, clusterRadius = 50\<rparr>"

definition clusters_layer :: layer where
  "clusters_layer =
     \<lparr>layer_id = ''clusters'', layer_type = ''circle'', source = ''ip-locations'',
      filter_expr = JArr [JStr ''has'', JStr ''point_count''],
      layout = [],
      paint =
        [(''circle-color'',
            JArr [JStr ''step'', JArr [JStr ''get'', JStr ''point_count''],
                  JStr ''#51bbd6'',
                  JNum 10, JStr ''#f1f075'',
                  JNum 30, JStr ''#f28cb1'']),
         (''circle-radius'',
            JArr [JStr ''step'', JArr [JStr ''get'', JStr ''point_count''],
                  JNum 20,
                  JNum 10, JNum 30,
                  JNum 30, JNum 40])]\<rparr>"

definition cluster_count_layer :: layer where
  "cluster_count_layer =
     \<lparr>layer_id = ''cluster-count'', layer_type = ''symbol'', source = ''ip-locations'',
      filter_expr = JArr [JStr ''has'', JStr ''point_count''],
      layout =
        [(''text-field'', JStr ''{point_count_abbreviated}''),
         (''text-font'', JArr [JStr ''Open Sans Semibold'', JStr ''Arial Unicode MS Bold'']),
         (''text-size'', JNum 12)],
      paint = [(''text-color'', JStr ''#ffffff'')]\<rparr>"

definition unclustered_point_layer :: layer where
  "unclustered_point_layer =
     \<lparr>layer_id = ''unclustered-point'', layer_type = ''circle'', source = ''ip-locations'',
      filter_expr = JArr [JStr ''!'', JArr [JStr ''has'', JStr ''point_count'']],
      layout = [],
      paint =
        [(''circle-color'', JStr ''#11b4da''),
         (''circle-radius'', JNum 8),
         (''circle-stroke-width'', JNum 2),
         (''circle-stroke-color'', JStr ''#fff'')]\<rparr>"

text \<open>
  A statement on the global \<^verbatim>\<open>map\<close>: a \<^verbatim>\<open>TypeError\<close> when the global is unset, the
  method's own throw otherwise. \<open>and_then\<close> is the sequence of two statements inside a
  \<^verbatim>\<open>try\<close> block: the second does not run when the first threw.
\<close>

definition with_map :: "(map_obj \<Rightarrow> map_obj + map_obj) \<Rightarrow> page \<Rightarrow> page + page" where
  "with_map f s =
     (case map_handle s of
        None \<Rightarrow> Inl s
      | Some m \<Rightarrow>
          (case f m of
             Inl m' \<Rightarrow> Inl (s\<lparr>map_handle := Some m'\<rparr>)
           | Inr m' \<Rightarrow> Inr (s\<lparr>map_handle := Some m'\<rparr>)))"

definition and_then :: "page + page \<Rightarrow> (page \<Rightarrow> page + page) \<Rightarrow> page + page" where
  "and_then r f = (case r of Inl s \<Rightarrow> Inl s | Inr s \<Rightarrow> f s)"

definition interaction_handlers :: "(event \<times> string \<times> handler) list" where
  "interaction_handlers =
     [(Click, ''clusters'', ClusterClick),
      (Click, ''unclustered-point'', PointClick),
      (Mouseenter, ''clusters'', CursorPointer),
      (Mouseleave, ''clusters'', CursorDefault),
      (Mouseenter, ''unclustered-point'', CursorPointer),
      (Mouseleave, ''unclustered-point'', CursorDefault)]"

definition addMapInteractions :: "page \<Rightarrow> page + page" where
  "addMapInteractions =
     with_map (\<lambda>m. Inr (foldl (\<lambda>m (e, l, h). on_layer e l h m) m interaction_handlers))"

definition addGeoJSONToMap :: "page \<Rightarrow> page" where
  "addGeoJSONToMap s =
     (case
        and_then (and_then (and_then (and_then
          (with_map (addSource ''ip-locations'' (ip_source (ipLocationData s))) s)
          (with_map (addLayer clusters_layer)))
          (with_map (addLayer cluster_count_layer)))
          (with_map (addLayer unclustered_point_layer)))
          addMapInteractions
      of
        Inr s' \<Rightarrow> s'
      | Inl s' \<Rightarrow> showErrorMessage ''Failed to display IP locations on map.'' s')"

subsection \<open>Style registry and controls\<close>

definition raster_style :: "string \<Rightarrow> string \<Rightarrow> string \<Rightarrow> json" where
  "raster_style name tiles attribution =
     JObj
       [(''version'', JNum 8),
        (''sources'',
           JObj [(name,
             JObj [(''type'', JStr ''raster''),
                   (''tiles'', JArr [JStr tiles]),
                   (''tileSize'', JNum 256),
                   (''attribution'', JStr attribution)])]),
        (''layers'',
           JArr [JObj [(''id'', JStr name),
                       (''type'', JStr ''raster''),
                       (''source'', JStr name),
                       (''minzoom'', JNum 0),
                       (''maxzoom'', JNum 22)]])]"

definition copyright_sign :: string where
  "copyright_sign = [CHR 0xC2, CHR 0xA9]"

text \<open>
  The own keys of the object \<^verbatim>\<open>mapStyles\<close>; \<open>None\<close> is \<^verbatim>\<open>undefined\<close>. The members that
  every object inherits (\<^verbatim>\<open>constructor\<close>, \<^verbatim>\<open>toString\<close> and the like) are not keys of this
  model: a style key is a value of the style selector.
\<close>

definition mapStyles :: "string \<Rightarrow> style option" where
  "mapStyles =
     map_of
       [(''streets'', StyleUrl ''https://demotiles.maplibre.org/style.json''),
        (''satellite'', StyleDoc (raster_style ''esri''
           ''https://server.arcgisonline.com/ArcGIS/rest/services/World_Imagery/MapServer/tile/{z}/{y}/{x}''
           (copyright_sign @ '' Esri''))),
        (''dark'', StyleDoc (raster_style ''cartodb''
           ''https://cartodb-basemaps-a.global.ssl.fastly.net/dark_all/{z}/{x}/{y}.png''
           (copyright_sign @ '' CartoDB''))),
        (''light'', StyleDoc (raster_style ''cartodb''
           ''https://cartodb-basemaps-a.global.ssl.fastly.net/light_all/{z}/{x}/{y}.png''
           (copyright_sign @ '' CartoDB'')))]"

definition defaultMapConfig :: camera where
  "defaultMapConfig = \<lparr>center = (- 98.5795, 39.8283), zoom = 3, pitch = 0, bearing = 0\<rparr>"

text \<open>
  \<^verbatim>\<open>changeMapStyle\<close>: both operands of its guard are objects or non-empty strings when
  they are defined, so the guard tests that the global and the registry entry exist. None
  of the methods it calls throws in this model, so its \<^verbatim>\<open>catch\<close> block has no case here;
  the same holds for \<^verbatim>\<open>resetMapView\<close>.
\<close>

definition changeMapStyle :: "string \<Rightarrow> page \<Rightarrow> page" where
  "changeMapStyle styleKey s =
     (case map_handle s of
        None \<Rightarrow> s
      | Some m \<Rightarrow>
          (case mapStyles styleKey of
             None \<Rightarrow> s
           | Some st \<Rightarrow>
               (let (currentCenter, m1) = getCenter m;
                    (currentZoom, m2) = getZoom m1;
                    (currentPitch, m3) = getPitch m2;
                    (currentBearing, m4) = getBearing m3;
                    m5 = setStyle st m4;
                    m6 = once Styledata
                           (RestoreView currentCenter currentZoom currentPitch currentBearing) m5
                in s\<lparr>map_handle := Some m6\<rparr>)))"

text \<open>
  The handler of the window's \<^verbatim>\<open>error\<close> event, which an exception that no
  \<^verbatim>\<open>try\<close> block catches reaches.
\<close>

definition window_error :: "page \<Rightarrow> page" where
  "window_error = showErrorMessage ''An unexpected error occurred. Please refresh the page.''"

text \<open>The callback that \<^verbatim>\<open>changeMapStyle\<close> registers, on the values it captured.\<close>

definition restore_view :: "real \<times> real \<Rightarrow> real \<Rightarrow> real \<Rightarrow> real \<Rightarrow> page \<Rightarrow> page" where
  "restore_view c z p b s =
     (case map_handle s of
        None \<Rightarrow> window_error s
      | Some m \<Rightarrow>
          (let s' = s\<lparr>map_handle := Some (setBearing b (setPitch p (setZoom z (setCenter c m))))\<rparr>
           in if truthy (ipLocationData s') then addGeoJSONToMap s' else s'))"

text \<open>
  The \<^verbatim>\<open>styledata\<close> event. The listeners of the event run in the order of their
  registration, the lasting ones before the one-time ones, and a one-time listener is
  removed when it runs. Two callbacks of the script listen to it: the one of
  \<^verbatim>\<open>initializeMap\<close>, which only logs, and the closure of \<^verbatim>\<open>changeMapStyle\<close>.
\<close>

fun styledata_handler :: "handler \<Rightarrow> page \<Rightarrow> page" where
  "styledata_handler (RestoreView c z p b) s = restore_view c z p b s"
| "styledata_handler h s = s"

definition fire_styledata :: "page \<Rightarrow> page" where
  "fire_styledata s =
     (case map_handle s of
        None \<Rightarrow> s
      | Some m \<Rightarrow>
          foldl (\<lambda>s h. styledata_handler h s)
            (s\<lparr>map_handle :=
                 Some (m\<lparr>once_listeners := filter (\<lambda>(e, h). e \<noteq> Styledata) (once_listeners m)\<rparr>)\<rparr>)
            (map (\<lambda>(e, l, h). h) (filter (\<lambda>(e, l, h). e = Styledata) (listeners m)) @
             map snd (filter (\<lambda>(e, h). e = Styledata) (once_listeners m))))"


definition resetMapView :: "page \<Rightarrow> page" where
  "resetMapView s =
     (case map_handle s of
        None \<Rightarrow> s
      | Some m \<Rightarrow> s\<lparr>map_handle := Some (easeTo defaultMapConfig 2000 m)\<rparr>)"

text \<open>
  The listeners that \<^verbatim>\<open>setupEventListeners\<close> binds to the style selector (on the
  value selected) and to the two zoom buttons; the reset button runs \<open>resetMapView\<close>.
\<close>

definition style_selector_change :: "string \<Rightarrow> page \<Rightarrow> page" where
  "style_selector_change v s = changeMapStyle v s"

definition zoom_in_click :: "page \<Rightarrow> page" where
  "zoom_in_click s =
     (case map_handle s of None \<Rightarrow> s | Some m \<Rightarrow> s\<lparr>map_handle := Some (zoomIn m)\<rparr>)"

definition zoom_out_click :: "page \<Rightarrow> page" where
  "zoom_out_click s =
     (case map_handle s of None \<Rightarrow> s | Some m \<Rightarrow> s\<lparr>map_handle := Some (zoomOut m)\<rparr>)"

subsection \<open>Loading the data\<close>

record response =
  ok :: bool
  status :: nat
  statusText :: string
  body :: string

text \<open>
  What \<^verbatim>\<open>fetch\<close> settles to: a rejection with the message of its error, or a response.
\<close>

datatype fetch_result = Rejected string | Resolved response

text \<open>
  The value that \<^verbatim>\<open>updateIPCount\<close> receives from the loader, \<^verbatim>\<open>features.length\<close>:
  a count for an array, as the documentation of \<^verbatim>\<open>updateIPCount\<close> has it. \<open>None\<close>
  stands for a value outside that documentation (the \<^verbatim>\<open>length\<close> of a \<^verbatim>\<open>features\<close>
  member that is neither an array nor a string, where it is no natural number and no
  string); what the page then shows rests on conversions of JavaScript that this
  development does not model.
\<close>

fun count_of :: "json option \<Rightarrow> count_arg option" where
  "count_of (Some (JNum x)) =
     (if 0 \<le> x \<and> x = of_int \<lfloor>x\<rfloor> then Some (Count (nat \<lfloor>x\<rfloor>)) else None)"
| "count_of (Some (JStr m)) = Some (Message m)"
| "count_of v = None"

text \<open>
  The \<^verbatim>\<open>try\<close> block of \<^verbatim>\<open>loadGeoJSONData\<close> after the status line. \<open>parse\<close> is
  \<^verbatim>\<open>JSON.parse\<close>: \<open>Inl\<close> of the message of its \<^verbatim>\<open>SyntaxError\<close>, or \<open>Inr\<close> of the value.
  The block ends in \<open>Inl (message, state)\<close> when it throws, in \<open>Inr state\<close> when it
  completes, and in \<open>None\<close> where \<open>count_of\<close> has no value.
\<close>

definition load_try ::
  "(string \<Rightarrow> string + json) \<Rightarrow> fetch_result \<Rightarrow> page \<Rightarrow> (string \<times> page + page) option" where
  "load_try parse fr s =
     (case fr of
        Rejected m \<Rightarrow> Some (Inl (m, s))
      | Resolved r \<Rightarrow>
          if \<not> ok r then
            Some (Inl (''HTTP error! status: '' @ show_nat (status r) @ '' - '' @ statusText r, s))
          else
            (case parse (body r) of
               Inl m \<Rightarrow> Some (Inl (m, s))
             | Inr v \<Rightarrow>
                 (let s1 = s\<lparr>ipLocationData := v\<rparr> in
                  if \<not> truthy v \<or> falsy (get_features v) then
                    Some (Inl (''Invalid GeoJSON structure - missing features array'', s1))
                  else
                    (case get_features v of
                       None \<Rightarrow> Some (Inl (''Invalid GeoJSON structure - missing features array'', s1))
                     | Some f \<Rightarrow>
                         if get_length f = Some (JNum 0) then
                           Some (Inl (''GeoJSON file contains no features'', s1))
                         else
                           (case count_of (get_length f) of
                              None \<Rightarrow> None
                            | Some c \<Rightarrow> Some (Inr (addGeoJSONToMap (updateIPCount c s1))))))))"

text \<open>The \<^verbatim>\<open>catch\<close> block of \<^verbatim>\<open>loadGeoJSONData\<close>, on the message of the error caught.\<close>

definition load_catch :: "string \<Rightarrow> page \<Rightarrow> page" where
  "load_catch message s =
     (if js_includes message ''404'' then
        showErrorMessage ''GeoJSON file not found. Please check the file path.'' s
      else if js_includes message ''Failed to fetch'' then
        showErrorMessage ''Network error. Please ensure you are running this from a web server.'' s
      else showErrorMessage (''Failed to load IP location data: '' @ message) s)"

text \<open>
  \<^verbatim>\<open>loadGeoJSONData\<close>, from its call to the settling of its promise; the events that the
  page handles while the function awaits are not interleaved, and the body of a response
  is read without failure.
\<close>

definition loadGeoJSONData ::
  "(string \<Rightarrow> string + json) \<Rightarrow> fetch_result \<Rightarrow> page \<Rightarrow> page option" where
  "loadGeoJSONData parse fr s =
     (case load_try parse fr (updateIPCount (Message ''Loading IP locations...'') s) of
        None \<Rightarrow> None
      | Some (Inl (message, s')) \<Rightarrow> Some (load_catch message s')
      | Some (Inr s') \<Rightarrow> Some s')"

subsection \<open>Popups\<close>

text \<open>
  A feature of the data as the input file has it: a point and the two properties of an
  IP location. Coordinates are (longitude, latitude).
\<close>

record feature_properties =
  ip :: string
  url :: string

record feature =
  coordinates :: "real \<times> real"
  properties :: feature_properties

record click_event =
  lngLat :: "real \<times> real"
  features :: "feature list"


definition formattedUrl :: "feature_properties \<Rightarrow> string" where
  "formattedUrl props = (if length (url props) > 50 then take 50 (url props) @ ''...'' else url props)"

definition dquote :: string where
  "dquote = [CHR 0x22]"












subsection \<open>Example states\<close>

text \<open>
  The page when the script starts (no map yet, no data), a map as \<^verbatim>\<open>initializeMap\<close>
  leaves it (the default style and camera, its three listeners, no source and no layer),
  the page with this map before any data is stored, and a page that has loaded a
  collection of one location.
\<close>

definition start_page :: page where
  "start_page =
     \<lparr>map_handle = None, ipLocationData = JNull,
      ip_count = Some \<lparr>textContent = [], color = []\<rparr>\<rparr>"

definition example_map :: map_obj where
  "example_map =
     \<lparr>style = StyleUrl ''https://demotiles.maplibre.org/style.json'',
      sources = [], layers = [], cam = defaultMapConfig,
      listeners = [(Load, None, OnMapLoad), (Error, None, OnMapError), (Styledata, None, OnStyledata)],
      once_listeners = [], popups = [], calls = []\<rparr>"

definition ready_page :: page where
  "ready_page =
     \<lparr>map_handle = Some example_map, ipLocationData = JNull,
      ip_count = Some \<lparr>textContent = [], color = []\<rparr>\<rparr>"

definition example_collection :: json where
  "example_collection =
     JObj [(''type'', JStr ''FeatureCollection''),
           (''features'',
              JArr [JObj [(''type'', JStr ''Feature''),
                          (''geometry'',
                             JObj [(''type'', JStr ''Point''),
                                   (''coordinates'', JArr [JNum (- 122), JNum 37])]),
                          (''properties'',
                             JObj [(''ip'', JStr ''192.0.2.1''),
                                   (''url'', JStr ''https://example.org/'')])]])]"

definition loaded_page :: page where
  "loaded_page =
     \<lparr>map_handle = Some example_map, ipLocationData = example_collection,
      ip_count = Some \<lparr>textContent = chart_emoji @ '' 1 unique IP locations loaded'',
                        color = ''#27ae60''\<rparr>\<rparr>"

text \<open>
  A \<^verbatim>\<open>JSON.parse\<close> for the example bodies: the texts \<^verbatim>\<open>{}\<close> and \<^verbatim>\<open>{"features":[]}\<close>
  and the values they denote; every other text is a syntax error here.
\<close>

definition empty_features_body :: string where
  "empty_features_body = ''{'' @ dquote @ ''features'' @ dquote @ '':[]}''"

definition example_parse :: "string \<Rightarrow> string + json" where
  "example_parse t =
     (if t = ''{}'' then Inr (JObj [])
      else if t = empty_features_body then
        Inr (JObj [(''features'', JArr [])])
      else Inl ''Unexpected token'')"

definition response_200 :: "string \<Rightarrow> response" where
  "response_200 t = \<lparr>ok = True, status = 200, statusText = ''OK'', body = t\<rparr>"





section \<open>Properties\<close>

subsection \<open>Strings\<close>

lemma js_includes_append: "js_includes (xs @ pat @ ys) pat"
proof (induction xs)
  case Nil
  show ?case
  proof (cases "pat @ ys")
    case Nil
    then show ?thesis by simp
  next
    case (Cons a list)
    have "take (length pat) (pat @ ys) = pat" by simp
    with Cons show ?thesis by simp
  qed
next
  case (Cons x xs)
  then show ?case by simp
qed

lemma js_includes_iff: "js_includes s pat \<longleftrightarrow> (\<exists>ps ss. s = ps @ pat @ ss)"
proof
  assume "js_includes s pat"
  then show "\<exists>ps ss. s = ps @ pat @ ss"
  proof (induction s)
    case Nil
    then show ?case by simp
  next
    case (Cons c cs)
    from Cons.prems have "take (length pat) (c # cs) = pat \<or> js_includes cs pat" by simp
    then show ?case
    proof
      assume "take (length pat) (c # cs) = pat"
      then have "c # cs = [] @ pat @ drop (length pat) (c # cs)"
        by (metis append_Nil append_take_drop_id)
      then show ?thesis by blast
    next
      assume "js_includes cs pat"
      with Cons.IH obtain ps ss where "cs = ps @ pat @ ss" by blast
      then have "c # cs = (c # ps) @ pat @ ss" by simp
      then show ?thesis by blast
    qed
  qed
next
  assume "\<exists>ps ss. s = ps @ pat @ ss"
  then show "js_includes s pat" by (auto simp: js_includes_append)
qed

subsection \<open>Status text\<close>



subsection \<open>Controls without a map or with an unknown style\<close>

lemma mapStyles_dom: "dom mapStyles = {''streets'', ''satellite'', ''dark'', ''light''}"
  by (auto simp: mapStyles_def dom_def split: if_splits)



text \<open>
  C10. While the global \<^verbatim>\<open>map\<close> is unset, \<open>changeMapStyle\<close> (also as the listener of the
  style selector), \<open>resetMapView\<close> and the listeners of the two zoom buttons return the
  page as it was: there is no map to call, and the status element is not written.
\<close>

theorem controls_without_map:
  assumes "map_handle s = None"
  shows "changeMapStyle styleKey s = s
       \<and> style_selector_change styleKey s = s
       \<and> resetMapView s = s
       \<and> zoom_in_click s = s
       \<and> zoom_out_click s = s"
  using assms
  by (simp add: changeMapStyle_def style_selector_change_def resetMapView_def
      zoom_in_click_def zoom_out_click_def)

theorem controls_without_map_witness:
  "map_handle start_page = None
   \<and> changeMapStyle ''dark'' start_page = start_page
   \<and> style_selector_change ''dark'' start_page = start_page
   \<and> resetMapView start_page = start_page
   \<and> zoom_in_click start_page = start_page
   \<and> zoom_out_click start_page = start_page"
proof -
  have a: "map_handle start_page = None"
    by (simp add: start_page_def)
  from a controls_without_map [OF a, of "''dark''"] show ?thesis
    by simp
qed

subsection \<open>The clusters layer\<close>

text \<open>
  C1. On a cluster of \<open>n\<close> points the paint properties of the clusters layer evaluate to
  radius 20 and colour \<^verbatim>\<open>#51bbd6\<close> for \<open>n < 10\<close>, radius 30 and colour \<^verbatim>\<open>#f1f075\<close> for
  \<open>10 \<le> n < 30\<close>, radius 40 and colour \<^verbatim>\<open>#f28cb1\<close> for \<open>30 \<le> n\<close>.
\<close>

theorem clusters_layer_steps:
  "paint_value clusters_layer ''circle-radius'' [(''point_count'', JNum (real n))] =
     Some (JNum (if n < 10 then 20 else if n < 30 then 30 else 40))
   \<and> paint_value clusters_layer ''circle-color'' [(''point_count'', JNum (real n))] =
     Some (JStr (if n < 10 then ''#51bbd6'' else if n < 30 then ''#f1f075'' else ''#f28cb1''))"
  by (simp add: paint_value_def clusters_layer_def)

theorem clusters_layer_steps_witness:
  "paint_value clusters_layer ''circle-radius'' [(''point_count'', JNum 9)] = Some (JNum 20)
   \<and> paint_value clusters_layer ''circle-color'' [(''point_count'', JNum 9)] = Some (JStr ''#51bbd6'')
   \<and> paint_value clusters_layer ''circle-radius'' [(''point_count'', JNum 10)] = Some (JNum 30)
   \<and> paint_value clusters_layer ''circle-color'' [(''point_count'', JNum 10)] = Some (JStr ''#f1f075'')
   \<and> paint_value clusters_layer ''circle-radius'' [(''point_count'', JNum 30)] = Some (JNum 40)
   \<and> paint_value clusters_layer ''circle-color'' [(''point_count'', JNum 30)] = Some (JStr ''#f28cb1'')"
  using clusters_layer_steps [of 9] clusters_layer_steps [of 10] clusters_layer_steps [of 30]
  by simp

subsection \<open>The loader\<close>

lemma element_update: "(el :: element)\<lparr>textContent := a, color := b\<rparr> = \<lparr>textContent = a, color = b\<rparr>"
  by (cases el) simp

lemma showErrorMessage_keeps [simp]:
  "map_handle (showErrorMessage msg s) = map_handle s"
  "ipLocationData (showErrorMessage msg s) = ipLocationData s"
  by (simp_all add: showErrorMessage_def split: option.splits)

lemma showErrorMessage_text:
  "ip_count s = Some el \<Longrightarrow>
   ip_count (showErrorMessage msg s) =
     Some \<lparr>textContent = cross_emoji @ '' Error: '' @ msg, color = ''#e74c3c''\<rparr>"
  by (simp add: showErrorMessage_def element_update)

lemma updateIPCount_keeps [simp]:
  "map_handle (updateIPCount c s) = map_handle s"
  "ipLocationData (updateIPCount c s) = ipLocationData s"
  by (cases c; simp split: option.splits)+

lemma updateIPCount_element:
  "ip_count s = Some el \<Longrightarrow> \<exists>el'. ip_count (updateIPCount c s) = Some el'"
  by (cases c) simp_all

declare updateIPCount.simps [simp del]

lemma load_catch_keeps [simp]:
  "map_handle (load_catch msg s) = map_handle s"
  "ipLocationData (load_catch msg s) = ipLocationData s"
  by (simp_all add: load_catch_def)

lemma load_rejected:
  "loadGeoJSONData parse (Rejected msg) s =
     Some (load_catch msg (updateIPCount (Message ''Loading IP locations...'') s))"
  by (simp add: loadGeoJSONData_def load_try_def)

lemma load_not_ok:
  "\<not> ok r \<Longrightarrow>
   loadGeoJSONData parse (Resolved r) s =
     Some (load_catch (''HTTP error! status: '' @ show_nat (status r) @ '' - '' @ statusText r)
            (updateIPCount (Message ''Loading IP locations...'') s))"
  by (simp add: loadGeoJSONData_def load_try_def)

lemma load_parse_error:
  "ok r \<Longrightarrow> parse (body r) = Inl msg \<Longrightarrow>
   loadGeoJSONData parse (Resolved r) s =
     Some (load_catch msg (updateIPCount (Message ''Loading IP locations...'') s))"
  by (simp add: loadGeoJSONData_def load_try_def)

lemma load_missing_features:
  "ok r \<Longrightarrow> parse (body r) = Inr v \<Longrightarrow> \<not> truthy v \<or> falsy (get_features v) \<Longrightarrow>
   loadGeoJSONData parse (Resolved r) s =
     Some (load_catch ''Invalid GeoJSON structure - missing features array''
            ((updateIPCount (Message ''Loading IP locations...'') s)\<lparr>ipLocationData := v\<rparr>))"
  by (auto simp add: loadGeoJSONData_def load_try_def Let_def)

lemma load_no_features:
  "ok r \<Longrightarrow> parse (body r) = Inr v \<Longrightarrow> truthy v \<Longrightarrow> get_features v = Some f \<Longrightarrow> truthy f \<Longrightarrow>
   get_length f = Some (JNum 0) \<Longrightarrow>
   loadGeoJSONData parse (Resolved r) s =
     Some (load_catch ''GeoJSON file contains no features''
            ((updateIPCount (Message ''Loading IP locations...'') s)\<lparr>ipLocationData := v\<rparr>))"
  by (simp add: loadGeoJSONData_def load_try_def Let_def)

lemma load_catch_missing:
  "load_catch ''Invalid GeoJSON structure - missing features array'' s =
     showErrorMessage
       ''Failed to load IP location data: Invalid GeoJSON structure - missing features array'' s"
  by (simp add: load_catch_def)

lemma load_catch_no_features:
  "load_catch ''GeoJSON file contains no features'' s =
     showErrorMessage ''Failed to load IP location data: GeoJSON file contains no features'' s"
  by (simp add: load_catch_def)

text \<open>
  The loader assigns the parsed value to \<open>ipLocationData\<close> before it validates it: a
  rejected document stays stored, whatever was stored before. A failed fetch, a response
  that is not ok and a body that does not parse leave the stored value alone.
\<close>

lemma load_failure_keeps_data:
  "loadGeoJSONData parse (Rejected msg) s = Some s' \<Longrightarrow> ipLocationData s' = ipLocationData s"
  "\<not> ok r \<Longrightarrow> loadGeoJSONData parse (Resolved r) s = Some s' \<Longrightarrow>
     ipLocationData s' = ipLocationData s"
  "ok r \<Longrightarrow> parse (body r) = Inl msg \<Longrightarrow> loadGeoJSONData parse (Resolved r) s = Some s' \<Longrightarrow>
     ipLocationData s' = ipLocationData s"
  by (auto simp: load_rejected load_not_ok load_parse_error)

lemma load_rejected_document_stays:
  "ok r \<Longrightarrow> parse (body r) = Inr v \<Longrightarrow>
   \<not> truthy v \<or> falsy (get_features v) \<or>
     (\<exists>f. get_features v = Some f \<and> get_length f = Some (JNum 0)) \<Longrightarrow>
   \<exists>s'. loadGeoJSONData parse (Resolved r) s = Some s' \<and> ipLocationData s' = v
        \<and> map_handle s' = map_handle s"
  by (cases "\<not> truthy v \<or> falsy (get_features v)")
     (auto simp: load_missing_features load_no_features)

subsection \<open>Messages of a failed load\<close>

lemma js_includes_set: "js_includes s pat \<Longrightarrow> set pat \<subseteq> set s"
  by (auto simp: js_includes_iff)

lemma js_includes_cut:
  assumes "c \<notin> set pat" and "js_includes (xs @ c # ys) pat"
  shows "js_includes xs pat \<or> js_includes ys pat"
  using assms(2)
proof (induction xs)
  case Nil
  then have "take (length pat) (c # ys) = pat \<or> js_includes ys pat" by simp
  then show ?case
  proof
    assume t: "take (length pat) (c # ys) = pat"
    have "pat = []"
    proof (cases pat)
      case Nil
      then show ?thesis .
    next
      case (Cons p ps)
      with t have "p = c" by simp
      with Cons assms(1) show ?thesis by simp
    qed
    then show ?thesis by simp
  next
    assume "js_includes ys pat"
    then show ?thesis ..
  qed
next
  case (Cons x xs)
  then have "take (length pat) (x # xs @ c # ys) = pat \<or> js_includes (xs @ c # ys) pat"
    by simp
  then show ?case
  proof
    assume t: "take (length pat) (x # xs @ c # ys) = pat"
    have "length pat \<le> length (x # xs)"
    proof (rule ccontr)
      assume "\<not> length pat \<le> length (x # xs)"
      then have "length (x # xs) < length pat" by simp
      then have "take (length pat) ((x # xs) @ c # ys) ! length (x # xs) = c"
        by (simp add: nth_append del: append_Cons)
      moreover have "length (x # xs) < length (take (length pat) ((x # xs) @ c # ys))"
        using \<open>length (x # xs) < length pat\<close> by simp
      ultimately have "c \<in> set (take (length pat) ((x # xs) @ c # ys))"
        by (metis nth_mem)
      with t assms(1) show False by simp
    qed
    then have "take (length pat) ((x # xs) @ c # ys) = take (length pat) (x # xs)"
      by (simp del: append_Cons)
    with t have "take (length pat) (x # xs) = pat" by simp
    then show ?thesis by simp
  next
    assume "js_includes (xs @ c # ys) pat"
    with Cons.IH have "js_includes xs pat \<or> js_includes ys pat" .
    then show ?thesis by auto
  qed
qed

lemma show_nat_digits: "set (show_nat n) \<subseteq> set ''0123456789''"
proof (induction n rule: show_nat.induct)
  case (1 n)
  show ?case
  proof (cases "n < 10")
    case True
    then have "''0123456789'' ! n \<in> set ''0123456789''" by (intro nth_mem) simp
    with True show ?thesis by (subst show_nat.simps) simp
  next
    case False
    have "''0123456789'' ! (n mod 10) \<in> set ''0123456789''" by (intro nth_mem) simp
    with False 1 show ?thesis by (subst show_nat.simps) simp
  qed
qed

lemma http_message_without_404:
  assumes "\<not> js_includes (show_nat n) ''404''" and "\<not> js_includes t ''404''"
  shows "\<not> js_includes (''HTTP error! status: '' @ show_nat n @ '' - '' @ t) ''404''"
proof
  assume "js_includes (''HTTP error! status: '' @ show_nat n @ '' - '' @ t) ''404''"
  then have "js_includes (''HTTP error! status:'' @ CHR '' '' # (show_nat n @ '' - '' @ t)) ''404''"
    by simp
  then have "js_includes ''HTTP error! status:'' ''404'' \<or> js_includes (show_nat n @ '' - '' @ t) ''404''"
    by (rule js_includes_cut [rotated]) simp
  then have "js_includes (show_nat n @ CHR '' '' # (''-'' @ CHR '' '' # t)) ''404''"
    by simp
  then have "js_includes (show_nat n) ''404'' \<or> js_includes (''-'' @ CHR '' '' # t) ''404''"
    by (rule js_includes_cut [rotated]) simp
  with assms(1) have "js_includes (''-'' @ CHR '' '' # t) ''404''" by simp
  then have "js_includes ''-'' ''404'' \<or> js_includes t ''404''"
    by (rule js_includes_cut [rotated]) simp
  with assms(2) show False by simp
qed

lemma http_message_without_fetch:
  assumes "\<not> js_includes t ''Failed to fetch''"
  shows "\<not> js_includes (''HTTP error! status: '' @ show_nat n @ '' - '' @ t) ''Failed to fetch''"
proof
  assume "js_includes (''HTTP error! status: '' @ show_nat n @ '' - '' @ t) ''Failed to fetch''"
  then have "js_includes ((''HTTP error! status: '' @ show_nat n @ '' '') @ CHR ''-'' # (CHR '' '' # t))
      ''Failed to fetch''"
    by simp
  then have "js_includes (''HTTP error! status: '' @ show_nat n @ '' '') ''Failed to fetch''
      \<or> js_includes (CHR '' '' # t) ''Failed to fetch''"
    by (rule js_includes_cut [rotated]) simp
  moreover have "\<not> js_includes (CHR '' '' # t) ''Failed to fetch''"
    using assms by simp
  ultimately have "js_includes (''HTTP error! status'' @ CHR '':'' # ('' '' @ show_nat n @ '' ''))
      ''Failed to fetch''"
    by simp
  then have "js_includes ''HTTP error! status'' ''Failed to fetch''
      \<or> js_includes ('' '' @ show_nat n @ '' '') ''Failed to fetch''"
    by (rule js_includes_cut [rotated]) simp
  then have "js_includes ('' '' @ show_nat n @ '' '') ''Failed to fetch''"
    by simp
  then have "set ''Failed to fetch'' \<subseteq> set ('' '' @ show_nat n @ '' '')"
    by (rule js_includes_set)
  then have "CHR ''F'' \<in> set (show_nat n)" by simp
  with show_nat_digits [of n] show False by auto
qed

text \<open>
  C7, as the code has it. The \<^verbatim>\<open>catch\<close> block of the loader chooses the line it shows by
  two substrings of the message it caught, \<^verbatim>\<open>404\<close> first and \<^verbatim>\<open>Failed to fetch\<close> second.
  With the status element present:
  \<^item> a response that is not ok and has status 404 shows the not-found line;
  \<^item> a response that is not ok, whose status digits and status text hold neither
    substring, shows the HTTP-error line, which contains the digits of the status;
  \<^item> a rejected fetch whose message holds \<^verbatim>\<open>Failed to fetch\<close> and not \<^verbatim>\<open>404\<close> shows the
    network line;
  \<^item> a parsed body that is falsy or has no truthy \<^verbatim>\<open>features\<close> shows the line of the
    missing array, a parsed body whose \<^verbatim>\<open>features\<close> is the empty array shows the line of
    the empty collection, and the two lines differ.
\<close>

theorem load_error_messages:
  assumes "ip_count s = Some el"
  shows "(\<not> ok r \<and> status r = 404 \<longrightarrow>
            map_option ip_count (loadGeoJSONData parse (Resolved r) s) =
              Some (Some \<lparr>textContent = cross_emoji @
                '' Error: GeoJSON file not found. Please check the file path.'',
                color = ''#e74c3c''\<rparr>))
       \<and> (\<not> ok r \<and> \<not> js_includes (show_nat (status r)) ''404''
            \<and> \<not> js_includes (statusText r) ''404''
            \<and> \<not> js_includes (statusText r) ''Failed to fetch'' \<longrightarrow>
            map_option ip_count (loadGeoJSONData parse (Resolved r) s) =
              Some (Some \<lparr>textContent = cross_emoji @
                '' Error: Failed to load IP location data: HTTP error! status: '' @
                show_nat (status r) @ '' - '' @ statusText r,
                color = ''#e74c3c''\<rparr>)
            \<and> js_includes (cross_emoji @
                '' Error: Failed to load IP location data: HTTP error! status: '' @
                show_nat (status r) @ '' - '' @ statusText r) (show_nat (status r)))
       \<and> (js_includes msg ''Failed to fetch'' \<and> \<not> js_includes msg ''404'' \<longrightarrow>
            map_option ip_count (loadGeoJSONData parse (Rejected msg) s) =
              Some (Some \<lparr>textContent = cross_emoji @
                '' Error: Network error. Please ensure you are running this from a web server.'',
                color = ''#e74c3c''\<rparr>))
       \<and> (ok r \<and> parse (body r) = Inr v \<and> (\<not> truthy v \<or> falsy (get_features v)) \<longrightarrow>
            map_option ip_count (loadGeoJSONData parse (Resolved r) s) =
              Some (Some \<lparr>textContent = cross_emoji @
                '' Error: Failed to load IP location data: Invalid GeoJSON structure - missing features array'',
                color = ''#e74c3c''\<rparr>))
       \<and> (ok r \<and> parse (body r) = Inr v \<and> truthy v \<and> get_features v = Some (JArr []) \<longrightarrow>
            map_option ip_count (loadGeoJSONData parse (Resolved r) s) =
              Some (Some \<lparr>textContent = cross_emoji @
                '' Error: Failed to load IP location data: GeoJSON file contains no features'',
                color = ''#e74c3c''\<rparr>))
       \<and> cross_emoji @
            '' Error: Failed to load IP location data: Invalid GeoJSON structure - missing features array''
          \<noteq> cross_emoji @ '' Error: Failed to load IP location data: GeoJSON file contains no features''"
proof -
  let ?s = "updateIPCount (Message ''Loading IP locations...'') s"
  from assms obtain el' where el': "ip_count ?s = Some el'"
    using updateIPCount_element by blast
  have el'': "ip_count (?s\<lparr>ipLocationData := v\<rparr>) = Some el'"
    using el' by simp
  have not_found: "map_option ip_count (loadGeoJSONData parse (Resolved r) s) =
      Some (Some \<lparr>textContent = cross_emoji @
        '' Error: GeoJSON file not found. Please check the file path.'', color = ''#e74c3c''\<rparr>)"
    if "\<not> ok r" "status r = 404"
  proof -
    have "show_nat 404 = ''404''"
      by (simp add: show_nat.simps)
    then have "js_includes (''HTTP error! status: '' @ show_nat (status r) @ '' - '' @ statusText r) ''404''"
      using that(2) js_includes_append [of "''HTTP error! status: ''" "''404''" "'' - '' @ statusText r"]
      by simp
    then show ?thesis
      using that(1) el' by (simp add: load_not_ok load_catch_def showErrorMessage_text)
  qed
  have http: "map_option ip_count (loadGeoJSONData parse (Resolved r) s) =
      Some (Some \<lparr>textContent = cross_emoji @
        '' Error: Failed to load IP location data: HTTP error! status: '' @
        show_nat (status r) @ '' - '' @ statusText r, color = ''#e74c3c''\<rparr>)"
    if "\<not> ok r" "\<not> js_includes (show_nat (status r)) ''404''"
      "\<not> js_includes (statusText r) ''404''" "\<not> js_includes (statusText r) ''Failed to fetch''"
    using that el' http_message_without_404 [of "status r" "statusText r"]
      http_message_without_fetch [of "statusText r" "status r"]
    by (simp add: load_not_ok load_catch_def showErrorMessage_text)
  have digits: "js_includes (cross_emoji @
      '' Error: Failed to load IP location data: HTTP error! status: '' @
      show_nat (status r) @ '' - '' @ statusText r) (show_nat (status r))"
    using js_includes_append [of "cross_emoji @
      '' Error: Failed to load IP location data: HTTP error! status: ''" "show_nat (status r)"
      "'' - '' @ statusText r"]
    by simp
  have network: "map_option ip_count (loadGeoJSONData parse (Rejected msg) s) =
      Some (Some \<lparr>textContent = cross_emoji @
        '' Error: Network error. Please ensure you are running this from a web server.'',
        color = ''#e74c3c''\<rparr>)"
    if "js_includes msg ''Failed to fetch''" "\<not> js_includes msg ''404''"
    using that el' by (simp add: load_rejected load_catch_def showErrorMessage_text)
  have missing: "map_option ip_count (loadGeoJSONData parse (Resolved r) s) =
      Some (Some \<lparr>textContent = cross_emoji @
        '' Error: Failed to load IP location data: Invalid GeoJSON structure - missing features array'',
        color = ''#e74c3c''\<rparr>)"
    if "ok r" "parse (body r) = Inr v" "\<not> truthy v \<or> falsy (get_features v)"
    using load_missing_features [of r parse v s] that showErrorMessage_text [OF el'']
    by (simp add: load_catch_missing)
  have empty: "map_option ip_count (loadGeoJSONData parse (Resolved r) s) =
      Some (Some \<lparr>textContent = cross_emoji @
        '' Error: Failed to load IP location data: GeoJSON file contains no features'',
        color = ''#e74c3c''\<rparr>)"
    if "ok r" "parse (body r) = Inr v" "truthy v" "get_features v = Some (JArr [])"
  proof -
    have "loadGeoJSONData parse (Resolved r) s =
        Some (load_catch ''GeoJSON file contains no features'' (?s\<lparr>ipLocationData := v\<rparr>))"
      using that by (intro load_no_features [where f = "JArr []"]) simp_all
    then show ?thesis
      using showErrorMessage_text [OF el''] by (simp add: load_catch_no_features)
  qed
  show ?thesis
    using not_found http digits network missing empty by simp
qed

theorem load_error_messages_witness:
  "map_option ip_count (loadGeoJSONData example_parse
       (Resolved \<lparr>ok = False, status = 404, statusText = ''Not Found'', body = []\<rparr>) start_page) =
     Some (Some \<lparr>textContent = cross_emoji @
       '' Error: GeoJSON file not found. Please check the file path.'', color = ''#e74c3c''\<rparr>)
   \<and> map_option ip_count (loadGeoJSONData example_parse
       (Resolved \<lparr>ok = False, status = 500, statusText = ''Internal Server Error'', body = []\<rparr>)
       start_page) =
     Some (Some \<lparr>textContent = cross_emoji @
       '' Error: Failed to load IP location data: HTTP error! status: 500 - Internal Server Error'',
       color = ''#e74c3c''\<rparr>)
   \<and> map_option ip_count (loadGeoJSONData example_parse (Rejected ''Failed to fetch'') start_page) =
     Some (Some \<lparr>textContent = cross_emoji @
       '' Error: Network error. Please ensure you are running this from a web server.'',
       color = ''#e74c3c''\<rparr>)
   \<and> map_option ip_count (loadGeoJSONData example_parse (Resolved (response_200 ''{}'')) start_page) =
     Some (Some \<lparr>textContent = cross_emoji @
       '' Error: Failed to load IP location data: Invalid GeoJSON structure - missing features array'',
       color = ''#e74c3c''\<rparr>)
   \<and> map_option ip_count (loadGeoJSONData example_parse
       (Resolved (response_200 empty_features_body)) start_page) =
     Some (Some \<lparr>textContent = cross_emoji @
       '' Error: Failed to load IP location data: GeoJSON file contains no features'',
       color = ''#e74c3c''\<rparr>)"
proof -
  have el: "ip_count start_page = Some \<lparr>textContent = [], color = []\<rparr>"
    by (simp add: start_page_def)
  have n500: "show_nat 500 = ''500''"
    by (simp add: show_nat.simps)
  have p1: "example_parse (body (response_200 ''{}'')) = Inr (JObj [])"
    by (simp add: example_parse_def response_200_def)
  have p2: "example_parse (body (response_200 empty_features_body)) = Inr (JObj [(''features'', JArr [])])"
    by (simp add: example_parse_def response_200_def empty_features_body_def dquote_def)
  have ok: "ok (response_200 t)" for t
    by (simp add: response_200_def)
  show ?thesis
    using
      load_error_messages [OF el,
        of "\<lparr>ok = False, status = 404, statusText = ''Not Found'', body = []\<rparr>"
           example_parse "''Failed to fetch''" JNull]
      load_error_messages [OF el,
        of "\<lparr>ok = False, status = 500, statusText = ''Internal Server Error'', body = []\<rparr>"
           example_parse "[]" JNull]
      load_error_messages [OF el, of "response_200 ''{}''" example_parse "[]" "JObj []"]
      load_error_messages [OF el, of "response_200 empty_features_body" example_parse "[]"
        "JObj [(''features'', JArr [])]"]
    by (simp add: n500 p1 p2 ok)
qed

text \<open>
  C7 as the claim has it fails. A response 503 whose status text is
  \<^verbatim>\<open>Failed to fetch\<close> shows the network line, which does not hold the status; a fetch
  rejected with another message than the one the code looks for, here \<^verbatim>\<open>Load failed\<close>,
  shows the general line of a failed load, which names no network.
\<close>

theorem load_error_messages_counterexample:
  "map_option ip_count (loadGeoJSONData example_parse
       (Resolved \<lparr>ok = False, status = 503, statusText = ''Failed to fetch'', body = []\<rparr>) start_page) =
     Some (Some \<lparr>textContent = cross_emoji @
       '' Error: Network error. Please ensure you are running this from a web server.'',
       color = ''#e74c3c''\<rparr>)
   \<and> \<not> js_includes (cross_emoji @
       '' Error: Network error. Please ensure you are running this from a web server.'')
       (show_nat 503)
   \<and> map_option ip_count (loadGeoJSONData example_parse (Rejected ''Load failed'') start_page) =
     Some (Some \<lparr>textContent = cross_emoji @ '' Error: Failed to load IP location data: Load failed'',
       color = ''#e74c3c''\<rparr>)
   \<and> \<not> js_includes (cross_emoji @ '' Error: Failed to load IP location data: Load failed'')
       ''etwork''"
proof -
  have n503: "show_nat 503 = ''503''"
    by (simp add: show_nat.simps)
  have el: "ip_count (updateIPCount (Message ''Loading IP locations...'') start_page) =
      Some \<lparr>textContent = ''Loading IP locations...'', color = ''#3498db''\<rparr>"
    by (simp add: start_page_def updateIPCount.simps)
  show ?thesis
    by (simp add: load_not_ok load_rejected load_catch_def showErrorMessage_text [OF el] n503
        cross_emoji_def)
qed

subsection \<open>Rendering twice\<close>

lemma render_fresh:
  assumes "map_handle s = Some m"
    and "''ip-locations'' \<notin> set (map fst (sources m))"
    and "''clusters'' \<notin> set (map layer_id (layers m))"
    and "''cluster-count'' \<notin> set (map layer_id (layers m))"
    and "''unclustered-point'' \<notin> set (map layer_id (layers m))"
  shows "addGeoJSONToMap s =
     s\<lparr>map_handle := Some (m\<lparr>
        sources := sources m @ [(''ip-locations'', ip_source (ipLocationData s))],
        layers := layers m @ [clusters_layer, cluster_count_layer, unclustered_point_layer],
        listeners := listeners m @ map (\<lambda>(e, l, h). (e, Some l, h)) interaction_handlers,
        calls := calls m @
          [AddSource ''ip-locations'', AddLayer ''clusters'', AddLayer ''cluster-count'',
           AddLayer ''unclustered-point''] @
          map (\<lambda>(e, l, h). On e (Some l) h) interaction_handlers\<rparr>)\<rparr>"
  using assms
  by (simp add: addGeoJSONToMap_def with_map_def and_then_def addSource_def addLayer_def
      addMapInteractions_def traced_def on_layer_def interaction_handlers_def
      clusters_layer_def cluster_count_layer_def unclustered_point_layer_def)

lemma render_duplicate:
  assumes "map_handle s = Some m" and "''ip-locations'' \<in> set (map fst (sources m))"
  shows "addGeoJSONToMap s =
     showErrorMessage ''Failed to display IP locations on map.''
       (s\<lparr>map_handle := Some (traced (AddSource ''ip-locations'') m)\<rparr>)"
  using assms
  by (simp add: addGeoJSONToMap_def with_map_def and_then_def addSource_def)




text \<open>
  C4, as the code has it. On a map that holds neither the source \<^verbatim>\<open>ip-locations\<close> nor one
  of the three layers, \<open>addGeoJSONToMap\<close> registers the source and the three layers and
  leaves the status element alone. A second call right after it registers nothing: the
  sources, the layers and the listeners stay as the first call left them, the only call
  it makes is the \<^verbatim>\<open>addSource\<close> that throws, and the status element, where the page has
  one, now shows the error line of a failed display. After a style swap, which drops the
  source and the layers, a further call registers exactly the source and the three
  layers again and writes no error.
\<close>

theorem render_twice:
  assumes "map_handle s = Some m"
    and "''ip-locations'' \<notin> set (map fst (sources m))"
    and "''clusters'' \<notin> set (map layer_id (layers m))"
    and "''cluster-count'' \<notin> set (map layer_id (layers m))"
    and "''unclustered-point'' \<notin> set (map layer_id (layers m))"
  shows "\<exists>m1 m2 m3.
       map_handle (addGeoJSONToMap s) = Some m1
     \<and> sources m1 = sources m @ [(''ip-locations'', ip_source (ipLocationData s))]
     \<and> layers m1 = layers m @ [clusters_layer, cluster_count_layer, unclustered_point_layer]
     \<and> ip_count (addGeoJSONToMap s) = ip_count s
     \<and> map_handle (addGeoJSONToMap (addGeoJSONToMap s)) = Some m2
     \<and> sources m2 = sources m1 \<and> layers m2 = layers m1 \<and> listeners m2 = listeners m1
     \<and> calls m2 = calls m1 @ [AddSource ''ip-locations'']
     \<and> ip_count (addGeoJSONToMap (addGeoJSONToMap s)) =
         map_option (\<lambda>el. \<lparr>textContent = cross_emoji @ '' Error: Failed to display IP locations on map.'',
                           color = ''#e74c3c''\<rparr>) (ip_count s)
     \<and> map_handle (addGeoJSONToMap ((addGeoJSONToMap s)\<lparr>map_handle := Some (setStyle st m1)\<rparr>)) = Some m3
     \<and> map fst (sources m3) = [''ip-locations'']
     \<and> layers m3 = [clusters_layer, cluster_count_layer, unclustered_point_layer]
     \<and> ip_count (addGeoJSONToMap ((addGeoJSONToMap s)\<lparr>map_handle := Some (setStyle st m1)\<rparr>)) =
         ip_count s"
proof -
  let ?m1 = "m\<lparr>
        sources := sources m @ [(''ip-locations'', ip_source (ipLocationData s))],
        layers := layers m @ [clusters_layer, cluster_count_layer, unclustered_point_layer],
        listeners := listeners m @ map (\<lambda>(e, l, h). (e, Some l, h)) interaction_handlers,
        calls := calls m @
          [AddSource ''ip-locations'', AddLayer ''clusters'', AddLayer ''cluster-count'',
           AddLayer ''unclustered-point''] @
          map (\<lambda>(e, l, h). On e (Some l) h) interaction_handlers\<rparr>"
  let ?s1 = "s\<lparr>map_handle := Some ?m1\<rparr>"
  have first: "addGeoJSONToMap s = ?s1"
    using assms by (rule render_fresh)
  have second: "addGeoJSONToMap ?s1 =
      showErrorMessage ''Failed to display IP locations on map.''
        (?s1\<lparr>map_handle := Some (traced (AddSource ''ip-locations'') ?m1)\<rparr>)"
    by (rule render_duplicate) simp_all
  let ?m2 = "traced (AddSource ''ip-locations'') ?m1"
  let ?s3 = "?s1\<lparr>map_handle := Some (setStyle st ?m1)\<rparr>"
  let ?m3 = "(setStyle st ?m1)\<lparr>
        sources := sources (setStyle st ?m1) @ [(''ip-locations'', ip_source (ipLocationData ?s3))],
        layers := layers (setStyle st ?m1) @ [clusters_layer, cluster_count_layer, unclustered_point_layer],
        listeners := listeners (setStyle st ?m1) @ map (\<lambda>(e, l, h). (e, Some l, h)) interaction_handlers,
        calls := calls (setStyle st ?m1) @
          [AddSource ''ip-locations'', AddLayer ''clusters'', AddLayer ''cluster-count'',
           AddLayer ''unclustered-point''] @
          map (\<lambda>(e, l, h). On e (Some l) h) interaction_handlers\<rparr>"
  have third: "addGeoJSONToMap ?s3 = ?s3\<lparr>map_handle := Some ?m3\<rparr>"
    by (rule render_fresh) (simp_all add: setStyle_def traced_def)
  have swap: "(addGeoJSONToMap s)\<lparr>map_handle := Some (setStyle st ?m1)\<rparr> = ?s3"
    by (simp only: first)
  have err: "ip_count (showErrorMessage msg t) =
      map_option (\<lambda>el. \<lparr>textContent = cross_emoji @ '' Error: '' @ msg, color = ''#e74c3c''\<rparr>) (ip_count t)"
    for msg t
    by (cases "ip_count t") (simp_all add: showErrorMessage_def element_update)
  have h1: "map_handle (addGeoJSONToMap s) = Some ?m1" "ip_count (addGeoJSONToMap s) = ip_count s"
    by (simp_all add: first)
  have h2: "map_handle (addGeoJSONToMap (addGeoJSONToMap s)) = Some ?m2"
    "ip_count (addGeoJSONToMap (addGeoJSONToMap s)) =
       map_option (\<lambda>el. \<lparr>textContent = cross_emoji @ '' Error: Failed to display IP locations on map.'',
                         color = ''#e74c3c''\<rparr>) (ip_count s)"
    by (simp_all only: first second) (simp_all add: err)
  have h3: "map_handle (addGeoJSONToMap ((addGeoJSONToMap s)\<lparr>map_handle := Some (setStyle st ?m1)\<rparr>)) =
      Some ?m3"
    "ip_count (addGeoJSONToMap ((addGeoJSONToMap s)\<lparr>map_handle := Some (setStyle st ?m1)\<rparr>)) =
      ip_count s"
    by (simp_all only: swap third) simp_all
  have m2: "sources ?m2 = sources ?m1" "layers ?m2 = layers ?m1" "listeners ?m2 = listeners ?m1"
    "calls ?m2 = calls ?m1 @ [AddSource ''ip-locations'']"
    by (simp_all add: traced_def)
  have m3: "map fst (sources ?m3) = [''ip-locations'']"
    "layers ?m3 = [clusters_layer, cluster_count_layer, unclustered_point_layer]"
    by (simp_all add: setStyle_def traced_def)
  have m1: "sources ?m1 = sources m @ [(''ip-locations'', ip_source (ipLocationData s))]"
    "layers ?m1 = layers m @ [clusters_layer, cluster_count_layer, unclustered_point_layer]"
    by simp_all
  show ?thesis
    apply (rule exI [of _ ?m1])
    apply (rule exI [of _ ?m2])
    apply (rule exI [of _ ?m3])
    apply (intro conjI)
    apply (fact h1 h2 h3 m1 m2 m3)+
    done
qed

theorem render_twice_witness:
  "map_option (map fst \<circ> sources) (map_handle (addGeoJSONToMap loaded_page)) = Some [''ip-locations'']
   \<and> map_option (map layer_id \<circ> layers) (map_handle (addGeoJSONToMap loaded_page)) =
       Some [''clusters'', ''cluster-count'', ''unclustered-point'']
   \<and> map_option (map fst \<circ> sources) (map_handle (addGeoJSONToMap (addGeoJSONToMap loaded_page))) =
       Some [''ip-locations'']
   \<and> map_option (map layer_id \<circ> layers) (map_handle (addGeoJSONToMap (addGeoJSONToMap loaded_page))) =
       Some [''clusters'', ''cluster-count'', ''unclustered-point'']
   \<and> ip_count (addGeoJSONToMap (addGeoJSONToMap loaded_page)) =
       Some \<lparr>textContent = cross_emoji @ '' Error: Failed to display IP locations on map.'',
             color = ''#e74c3c''\<rparr>"
proof -
  have a: "map_handle loaded_page = Some example_map"
    by (simp add: loaded_page_def)
  have b: "''ip-locations'' \<notin> set (map fst (sources example_map))"
    "''clusters'' \<notin> set (map layer_id (layers example_map))"
    "''cluster-count'' \<notin> set (map layer_id (layers example_map))"
    "''unclustered-point'' \<notin> set (map layer_id (layers example_map))"
    by (simp_all add: example_map_def)
  have c: "ip_count loaded_page =
      Some \<lparr>textContent = chart_emoji @ '' 1 unique IP locations loaded'', color = ''#27ae60''\<rparr>"
    "sources example_map = []" "layers example_map = []"
    by (simp_all add: loaded_page_def example_map_def)
  from render_twice [OF a b, of "StyleUrl []"] obtain m1 m2 where
    "map_handle (addGeoJSONToMap loaded_page) = Some m1"
    "sources m1 = sources example_map @ [(''ip-locations'', ip_source (ipLocationData loaded_page))]"
    "layers m1 = layers example_map @ [clusters_layer, cluster_count_layer, unclustered_point_layer]"
    "map_handle (addGeoJSONToMap (addGeoJSONToMap loaded_page)) = Some m2"
    "sources m2 = sources m1" "layers m2 = layers m1"
    "ip_count (addGeoJSONToMap (addGeoJSONToMap loaded_page)) =
         map_option (\<lambda>el. \<lparr>textContent = cross_emoji @ '' Error: Failed to display IP locations on map.'',
                           color = ''#e74c3c''\<rparr>) (ip_count loaded_page)"
    by blast
  then show ?thesis
    by (simp add: c clusters_layer_def cluster_count_layer_def unclustered_point_layer_def)
qed

text \<open>
  C4 as the claim has it (the operation is idempotent, its second call a no-op) fails:
  on the page that has loaded one location, the first call leaves the count line on the
  status element and the second replaces it by the error line, so the second call
  changes the page.
\<close>

theorem render_twice_counterexample:
  "ip_count (addGeoJSONToMap loaded_page) =
     Some \<lparr>textContent = chart_emoji @ '' 1 unique IP locations loaded'', color = ''#27ae60''\<rparr>
   \<and> ip_count (addGeoJSONToMap (addGeoJSONToMap loaded_page)) =
     Some \<lparr>textContent = cross_emoji @ '' Error: Failed to display IP locations on map.'',
           color = ''#e74c3c''\<rparr>
   \<and> addGeoJSONToMap (addGeoJSONToMap loaded_page) \<noteq> addGeoJSONToMap loaded_page"
proof -
  have a: "map_handle loaded_page = Some example_map"
    by (simp add: loaded_page_def)
  have first: "ip_count (addGeoJSONToMap loaded_page) =
      Some \<lparr>textContent = chart_emoji @ '' 1 unique IP locations loaded'', color = ''#27ae60''\<rparr>"
    by (subst render_fresh [OF a]) (simp_all add: example_map_def loaded_page_def)
  have src: "\<exists>m. map_handle (addGeoJSONToMap loaded_page) = Some m
      \<and> ''ip-locations'' \<in> set (map fst (sources m))"
    by (subst render_fresh [OF a]) (simp_all add: example_map_def)
  then obtain m where m: "map_handle (addGeoJSONToMap loaded_page) = Some m"
    "''ip-locations'' \<in> set (map fst (sources m))"
    by blast
  have second: "ip_count (addGeoJSONToMap (addGeoJSONToMap loaded_page)) =
      Some \<lparr>textContent = cross_emoji @ '' Error: Failed to display IP locations on map.'',
            color = ''#e74c3c''\<rparr>"
    using first by (simp add: render_duplicate [OF m] showErrorMessage_text)
  have "ip_count (addGeoJSONToMap (addGeoJSONToMap loaded_page)) \<noteq> ip_count (addGeoJSONToMap loaded_page)"
    unfolding first second by simp
  then have "addGeoJSONToMap (addGeoJSONToMap loaded_page) \<noteq> addGeoJSONToMap loaded_page"
    by auto
  with first second show ?thesis by simp
qed

subsection \<open>Switching the style\<close>








subsection \<open>The click on a single point\<close>





subsection \<open>The content of a popup\<close>



lemma formattedUrl_cases:
  "length (url props) > 50 \<Longrightarrow> formattedUrl props = take 50 (url props) @ ''...''"
  "length (url props) > 50 \<Longrightarrow> length (formattedUrl props) = 53"
  "length (url props) \<le> 50 \<Longrightarrow> formattedUrl props = url props"
  by (simp_all add: formattedUrl_def)




subsection \<open>A rejected document stays stored\<close>

text \<open>
  C3. The claim: a load that fails its validation leaves the stored collection as it
  was. The code, on the page as the map's \<^verbatim>\<open>load\<close> event finds it (a map, nothing stored)
  and a response 200 whose body is \<^verbatim>\<open>{"features":[]}\<close> or \<^verbatim>\<open>{}\<close>: the load reports the
  error of the empty, respectively the missing, array, and the rejected document is what
  \<open>ipLocationData\<close> now holds. It is truthy, so a style change after the failed load runs
  the renderer on it: the map gets the source \<^verbatim>\<open>ip-locations\<close>.
\<close>

theorem load_stores_rejected_document:
  "loadGeoJSONData example_parse (Resolved (response_200 empty_features_body)) ready_page =
     Some (ready_page\<lparr>
       ipLocationData := JObj [(''features'', JArr [])],
       ip_count := Some \<lparr>textContent = cross_emoji @
           '' Error: Failed to load IP location data: GeoJSON file contains no features'',
         color = ''#e74c3c''\<rparr>\<rparr>)
   \<and> loadGeoJSONData example_parse (Resolved (response_200 ''{}'')) ready_page =
     Some (ready_page\<lparr>
       ipLocationData := JObj [],
       ip_count := Some \<lparr>textContent = cross_emoji @
           '' Error: Failed to load IP location data: Invalid GeoJSON structure - missing features array'',
         color = ''#e74c3c''\<rparr>\<rparr>)
   \<and> ipLocationData ready_page = JNull
   \<and> map_option (map fst \<circ> sources)
        (map_handle (fire_styledata (changeMapStyle ''dark''
           (ready_page\<lparr>
              ipLocationData := JObj [(''features'', JArr [])],
              ip_count := Some \<lparr>textContent = cross_emoji @
                  '' Error: Failed to load IP location data: GeoJSON file contains no features'',
                color = ''#e74c3c''\<rparr>\<rparr>)))) =
       Some [''ip-locations'']"
proof -
  have p1: "example_parse empty_features_body = Inr (JObj [(''features'', JArr [])])"
    by (simp add: example_parse_def empty_features_body_def dquote_def)
  have p2: "example_parse ''{}'' = Inr (JObj [])"
    by (simp add: example_parse_def)
  have "loadGeoJSONData example_parse (Resolved (response_200 empty_features_body)) ready_page =
      Some (load_catch ''GeoJSON file contains no features''
        ((updateIPCount (Message ''Loading IP locations...'') ready_page)
           \<lparr>ipLocationData := JObj [(''features'', JArr [])]\<rparr>))"
    by (rule load_no_features [where f = "JArr []"]) (simp_all add: response_200_def p1)
  then have 1: "loadGeoJSONData example_parse (Resolved (response_200 empty_features_body)) ready_page =
     Some (ready_page\<lparr>
       ipLocationData := JObj [(''features'', JArr [])],
       ip_count := Some \<lparr>textContent = cross_emoji @
           '' Error: Failed to load IP location data: GeoJSON file contains no features'',
         color = ''#e74c3c''\<rparr>\<rparr>)"
    by (simp add: load_catch_no_features showErrorMessage_def ready_page_def updateIPCount.simps)
  have "loadGeoJSONData example_parse (Resolved (response_200 ''{}'')) ready_page =
      Some (load_catch ''Invalid GeoJSON structure - missing features array''
        ((updateIPCount (Message ''Loading IP locations...'') ready_page)\<lparr>ipLocationData := JObj []\<rparr>))"
    by (rule load_missing_features) (simp_all add: response_200_def p2)
  then have 2: "loadGeoJSONData example_parse (Resolved (response_200 ''{}'')) ready_page =
     Some (ready_page\<lparr>
       ipLocationData := JObj [],
       ip_count := Some \<lparr>textContent = cross_emoji @
           '' Error: Failed to load IP location data: Invalid GeoJSON structure - missing features array'',
         color = ''#e74c3c''\<rparr>\<rparr>)"
    by (simp add: load_catch_missing showErrorMessage_def ready_page_def updateIPCount.simps)
  obtain st where st: "mapStyles ''dark'' = Some st"
    by (simp add: mapStyles_def)
  let ?el = "Some \<lparr>textContent = cross_emoji @
      '' Error: Failed to load IP location data: GeoJSON file contains no features'',
      color = ''#e74c3c''\<rparr>"
  let ?s = "ready_page\<lparr>ipLocationData := JObj [(''features'', JArr [])], ip_count := ?el\<rparr>"
  let ?m = "example_map\<lparr>style := st,
      calls := [GetCenter, GetZoom, GetPitch, GetBearing, SetStyle st,
                Once Styledata (RestoreView (- 98.5795, 39.8283) 3 0 0),
                SetCenter (- 98.5795, 39.8283), SetZoom 3, SetPitch 0, SetBearing 0]\<rparr>"
  let ?t = "?s\<lparr>map_handle := Some ?m\<rparr>"
  have "fire_styledata (changeMapStyle ''dark'' ?s) = addGeoJSONToMap ?t"
    by (simp add: changeMapStyle_def st getCenter_def getZoom_def getPitch_def getBearing_def
        fire_styledata_def once_def setStyle_def traced_def example_map_def ready_page_def
        restore_view_def setBearing_def setPitch_def setZoom_def setCenter_def defaultMapConfig_def)
  moreover have "map_option (map fst \<circ> sources) (map_handle (addGeoJSONToMap ?t)) =
      Some [''ip-locations'']"
    by (subst render_fresh [where m = ?m]) (simp_all add: example_map_def)
  ultimately have 3: "map_option (map fst \<circ> sources)
      (map_handle (fire_styledata (changeMapStyle ''dark'' ?s))) = Some [''ip-locations'']"
    by simp
  have 4: "ipLocationData ready_page = JNull"
    by (simp add: ready_page_def)
  from 1 2 3 4 show ?thesis by (intro conjI)
qed

end
